theory Spec2Isabelle
  imports Main "HOL-Library.AList" "HOL-Library.Sublist"
begin

section \<open>JavaScript values\<close>

text \<open>
  The managers of EduFlow (\<^verbatim>\<open>core.js\<close>, \<^verbatim>\<open>tasks.js\<close>, \<^verbatim>\<open>pomodoro.js\<close>,
  \<^verbatim>\<open>flashcards.js\<close>) are embedded as functions on explicit states. The presentation layer
  (DOM updates, \<^verbatim>\<open>alert\<close>, the achievement toast) is left out: the page is taken to be
  present, and the presentation code never writes a manager's fields. Where that code reads
  the data of a manager, the types of the model hold only data on which it does not throw
  (see the task manager).

  A JavaScript number is modelled as an integer or \<^verbatim>\<open>NaN\<close>. This covers every number the
  modelled code computes from integer inputs (\<^verbatim>\<open>Date.now()\<close>, counters, minutes, indices);
  fractions and infinities do not occur, and integers are taken in the range where doubles
  are exact. A string is a list of code units below 256, a \<open>char\<close> being the code unit of
  that value; strings with other code units are outside the model.
\<close>

datatype number = Num int | NaN

datatype jsval =
    JUndefined
  | JNull
  | JBool bool
  | JNumber number
  | JString string
  | JArray "jsval list"
  | JObject "(string \<times> jsval) list"

text \<open>Truthiness (\<^verbatim>\<open>ToBoolean\<close>), as used by \<^verbatim>\<open>!x\<close>, \<^verbatim>\<open>x || y\<close> and \<^verbatim>\<open>x ? a : b\<close>.\<close>

fun truthy :: "jsval \<Rightarrow> bool" where
  "truthy JUndefined = False"
| "truthy JNull = False"
| "truthy (JBool b) = b"
| "truthy (JNumber NaN) = False"
| "truthy (JNumber (Num n)) = (n \<noteq> 0)"
| "truthy (JString s) = (s \<noteq> [])"
| "truthy (JArray xs) = True"
| "truthy (JObject kvs) = True"


text \<open>Arithmetic and comparison on numbers; every operation on \<^verbatim>\<open>NaN\<close> gives \<^verbatim>\<open>NaN\<close> or false.\<close>

fun num_add :: "number \<Rightarrow> number \<Rightarrow> number" where
  "num_add (Num a) (Num b) = Num (a + b)"
| "num_add _ _ = NaN"

fun num_sub :: "number \<Rightarrow> number \<Rightarrow> number" where
  "num_sub (Num a) (Num b) = Num (a - b)"
| "num_sub _ _ = NaN"

fun num_mul :: "number \<Rightarrow> number \<Rightarrow> number" where
  "num_mul (Num a) (Num b) = Num (a * b)"
| "num_mul _ _ = NaN"

text \<open>\<^verbatim>\<open>a % b\<close>: the remainder takes the sign of the dividend, and \<^verbatim>\<open>a % 0\<close> is \<^verbatim>\<open>NaN\<close>.\<close>

fun num_rem :: "number \<Rightarrow> number \<Rightarrow> number" where
  "num_rem (Num a) (Num b) = (if b = 0 then NaN else Num (sgn a * (\<bar>a\<bar> mod \<bar>b\<bar>)))"
| "num_rem _ _ = NaN"

fun num_gt :: "number \<Rightarrow> number \<Rightarrow> bool" where
  "num_gt (Num a) (Num b) = (b < a)"
| "num_gt _ _ = False"

text \<open>\<^verbatim>\<open>a === b\<close> on numbers: \<^verbatim>\<open>NaN\<close> equals nothing.\<close>

fun strict_eq :: "number \<Rightarrow> number \<Rightarrow> bool" where
  "strict_eq (Num a) (Num b) = (a = b)"
| "strict_eq _ _ = False"

text \<open>\<^verbatim>\<open>a || b\<close> on numbers: \<^verbatim>\<open>NaN\<close> and \<^verbatim>\<open>0\<close> are falsy.\<close>

definition num_or :: "number \<Rightarrow> number \<Rightarrow> number" where
  "num_or a b = (if truthy (JNumber a) then a else b)"

text \<open>Objects are association lists in insertion order.\<close>

type_synonym object = "(string \<times> jsval) list"

subsection \<open>Numbers to strings, strings to numbers\<close>

text \<open>The decimal numeral of an array index, as a property key.\<close>

fun show_nat :: "nat \<Rightarrow> string" where
  "show_nat n =
     (if n < 10 then [char_of (48 + n)] else show_nat (n div 10) @ [char_of (48 + n mod 10)])"

declare show_nat.simps [simp del]

text \<open>
  The white space that \<^verbatim>\<open>parseInt\<close> skips, among the code units below 256: TAB, LF, VT, FF,
  CR, SP and the no-break space U+00A0.
\<close>

definition StrWhiteSpaceChar :: "char \<Rightarrow> bool" where
  "StrWhiteSpaceChar c = (of_char c \<in> {9, 10, 11, 12, 13, 32, 160 :: nat})"

definition digit_value :: "char \<Rightarrow> nat option" where
  "digit_value c =
     (let n = (of_char c :: nat)
      in if 48 \<le> n \<and> n \<le> 57 then Some (n - 48)
         else if 97 \<le> n \<and> n \<le> 122 then Some (n - 87)
         else if 65 \<le> n \<and> n \<le> 90 then Some (n - 55)
         else None)"

definition radix_digit :: "nat \<Rightarrow> char \<Rightarrow> bool" where
  "radix_digit R c = (case digit_value c of None \<Rightarrow> False | Some d \<Rightarrow> d < R)"

definition digits_value :: "nat \<Rightarrow> string \<Rightarrow> nat" where
  "digits_value R Z =
     foldl (\<lambda>acc c. acc * R + (case digit_value c of None \<Rightarrow> 0 | Some d \<Rightarrow> d)) 0 Z"

text \<open>
  \<^verbatim>\<open>parseInt(string)\<close> with no radix: leading white space is skipped, then a sign, then a
  \<^verbatim>\<open>0x\<close> prefix selects radix 16; the longest run of digits is the value, and no digit at
  all gives \<^verbatim>\<open>NaN\<close>. The value is the exact integer, which is the number the engine
  returns as long as it is at most \<open>2 ^ 53\<close>; beyond that the engine rounds, and the
  standard lets it approximate long digit runs.
\<close>

definition parseInt_string :: "string \<Rightarrow> number" where
  "parseInt_string inputString =
     (let S = dropWhile StrWhiteSpaceChar inputString;
          sign = (if S \<noteq> [] \<and> hd S = CHR ''-'' then - 1 else (1 :: int));
          S = (if S \<noteq> [] \<and> (hd S = CHR ''+'' \<or> hd S = CHR ''-'') then tl S else S);
          hex = (take 2 S = ''0x'' \<or> take 2 S = ''0X'');
          R = (if hex then 16 else 10);
          S = (if hex then drop 2 S else S);
          Z = takeWhile (radix_digit R) S
      in if Z = [] then NaN else Num (sign * int (digits_value R Z)))"

text \<open>
  \<^verbatim>\<open>parseInt(x)\<close> for \<open>x\<close> a string or \<^verbatim>\<open>undefined\<close> (\<open>None\<close>): the argument is first
  converted to a string, \<^verbatim>\<open>undefined\<close> to \<^verbatim>\<open>"undefined"\<close>.
\<close>

fun parseInt :: "string option \<Rightarrow> number" where
  "parseInt None = parseInt_string ''undefined''"
| "parseInt (Some x) = parseInt_string x"

section \<open>core.js: the fail-soft store\<close>

datatype error = Error string | SyntaxError | SecurityError | QuotaExceededError

text \<open>
  The browser side of \<^verbatim>\<open>Storage\<close>: the contents of \<^verbatim>\<open>localStorage\<close> in insertion order,
  whether access to it is denied (then every access throws), the quota in characters of
  keys and values, and what \<^verbatim>\<open>console.error\<close> has logged.
\<close>

record browser =
  items :: "(string \<times> string) list"
  denied :: bool
  quota :: nat
  console :: "(string \<times> error) list"

text \<open>\<^verbatim>\<open>JSON.parse\<close> and \<^verbatim>\<open>JSON.stringify\<close> are builtins of the platform, taken as parameters.\<close>

record JSON =
  parse :: "string \<Rightarrow> error + jsval"
  stringify :: "jsval \<Rightarrow> string"

definition StorageKeys_TASKS :: string where
  "StorageKeys_TASKS = ''eduflow_tasks''"

definition StorageKeys_POMODORO_STATS :: string where
  "StorageKeys_POMODORO_STATS = ''eduflow_pomodoro''"

definition getItem :: "browser \<Rightarrow> string \<Rightarrow> error + string option" where
  "getItem b key = (if denied b then Inl SecurityError else Inr (map_of (items b) key))"

definition used :: "(string \<times> string) list \<Rightarrow> nat" where
  "used kvs = sum_list (map (\<lambda>(k, v). length k + length v) kvs)"

definition setItem :: "browser \<Rightarrow> string \<Rightarrow> string \<Rightarrow> error + browser" where
  "setItem b key data =
     (if denied b then Inl SecurityError
      else let kvs = AList.update key data (items b)
           in if quota b < used kvs then Inl QuotaExceededError
              else Inr (b\<lparr>items := kvs\<rparr>))"

definition console_error :: "string \<Rightarrow> error \<Rightarrow> browser \<Rightarrow> browser" where
  "console_error msg err b = b\<lparr>console := console b @ [(msg, err)]\<rparr>"

text \<open>\<^verbatim>\<open>try { body } catch (err) { handler }\<close>\<close>

definition try_catch :: "error + 'a \<Rightarrow> (error \<Rightarrow> error + 'a) \<Rightarrow> error + 'a" where
  "try_catch body handler = (case body of Inl err \<Rightarrow> handler err | Inr r \<Rightarrow> Inr r)"

text \<open>
  \<^verbatim>\<open>Storage.get\<close>:
  \<^verbatim>\<open>try { const data = localStorage.getItem(key); return data ? JSON.parse(data) : null; }
  catch (err) { console.error('Error reading from storage:', err); return null; }\<close>
  The result is the value returned together with the browser state (the log may have grown).
\<close>

definition Storage_get :: "JSON \<Rightarrow> browser \<Rightarrow> string \<Rightarrow> error + jsval \<times> browser" where
  "Storage_get J b key =
     try_catch
       (case getItem b key of
          Inl err \<Rightarrow> Inl err
        | Inr data \<Rightarrow>
            (case data of
               None \<Rightarrow> Inr (JNull, b)
             | Some d \<Rightarrow>
                 if d \<noteq> [] then (case parse J d of Inl err \<Rightarrow> Inl err | Inr v \<Rightarrow> Inr (v, b))
                 else Inr (JNull, b)))
       (\<lambda>err. Inr (JNull, console_error ''Error reading from storage:'' err b))"

text \<open>
  \<^verbatim>\<open>Storage.set\<close>:
  \<^verbatim>\<open>try { localStorage.setItem(key, JSON.stringify(value)); }
  catch (err) { console.error('Error writing to storage:', err); }\<close>
\<close>

definition Storage_set :: "JSON \<Rightarrow> browser \<Rightarrow> string \<Rightarrow> jsval \<Rightarrow> error + browser" where
  "Storage_set J b key v =
     try_catch
       (setItem b key (stringify J v))
       (\<lambda>err. Inr (console_error ''Error writing to storage:'' err b))"

section \<open>tasks.js: the task manager\<close>

text \<open>
  The argument of \<^verbatim>\<open>addTask\<close> is an object whose properties are strings, as the task form
  supplies them (\<^verbatim>\<open>app.js\<close> reads the \<^verbatim>\<open>value\<close> of its inputs) and as the call in the header
  of \<^verbatim>\<open>tasks.js\<close> does; a property may be absent. Objects with a property of another type
  are outside the model.
\<close>

type_synonym taskData = "(string \<times> string) list"

text \<open>\<^verbatim>\<open>x || d\<close> for \<open>x\<close> a string or \<^verbatim>\<open>undefined\<close>: the empty string is falsy.\<close>

fun string_or :: "string option \<Rightarrow> string \<Rightarrow> string" where
  "string_or None d = d"
| "string_or (Some x) d = (if x \<noteq> [] then x else d)"

text \<open>
  A task as \<^verbatim>\<open>addTask\<close> builds it from such an object. The field \<^verbatim>\<open>id\<close> is named
  \<open>id_task\<close> here; \<^verbatim>\<open>time\<close> is the number computed by \<^verbatim>\<open>parseInt(taskData.time) || 25\<close>.
\<close>

record task =
  id_task :: int
  title :: string
  desc :: string
  date :: string
  time :: number
  priority :: string
  completed :: bool
  createdAt :: string

record TaskManager =
  tasks :: "task list"
  currentFilter :: string

text \<open>The task as the value handed to \<^verbatim>\<open>JSON.stringify\<close>.\<close>

definition task_object :: "task \<Rightarrow> jsval" where
  "task_object t =
     JObject [(''id'', JNumber (Num (id_task t))), (''title'', JString (task.title t)),
              (''desc'', JString (task.desc t)), (''date'', JString (task.date t)),
              (''time'', JNumber (task.time t)), (''priority'', JString (task.priority t)),
              (''completed'', JBool (task.completed t)),
              (''createdAt'', JString (task.createdAt t))]"

text \<open>\<^verbatim>\<open>save() { Storage.set(StorageKeys.TASKS, this.tasks); }\<close>\<close>

definition save_tasks :: "JSON \<Rightarrow> TaskManager \<times> browser \<Rightarrow> error + browser" where
  "save_tasks J mb =
     (case mb of (m, b) \<Rightarrow> Storage_set J b StorageKeys_TASKS (JArray (map task_object (tasks m))))"

text \<open>
  \<^verbatim>\<open>addTask(taskData)\<close>. The two readings of the clock are inputs: \<open>now\<close> is
  \<^verbatim>\<open>Date.now()\<close> (milliseconds) and \<open>isoString\<close> is \<^verbatim>\<open>new Date().toISOString()\<close>. The result
  is the thrown error, or the returned task with the new state.

  The guard \<^verbatim>\<open>!taskData.title || !taskData.date\<close> holds when one of the two is absent or the
  empty string; past it both are strings that are not empty.

  After \<^verbatim>\<open>this.save()\<close> the method calls \<^verbatim>\<open>AchievementSystem.show\<close> and \<^verbatim>\<open>this.renderTasks()\<close>.
  They write the page only. What they read of the tasks are strings and numbers:
  \<^verbatim>\<open>createTaskHTML\<close> calls \<^verbatim>\<open>task.priority.toUpperCase()\<close>, which throws when the priority is
  not a string, and that does not occur on the tasks of this model.
\<close>

definition addTask ::
  "JSON \<Rightarrow> int \<Rightarrow> string \<Rightarrow> taskData \<Rightarrow> TaskManager \<times> browser \<Rightarrow>
   error + task \<times> TaskManager \<times> browser" where
  "addTask J now isoString taskData mb =
     (case mb of (m, b) \<Rightarrow>
        (case (map_of taskData ''title'', map_of taskData ''date'') of
           (Some title0, Some date0) \<Rightarrow>
             if title0 = [] \<or> date0 = []
             then Inl (Error ''Title and date are required'')
             else
               let t = \<lparr> id_task = now,
                         title = title0,
                         desc = string_or (map_of taskData ''desc'') [],
                         date = date0,
                         time = num_or (parseInt (map_of taskData ''time'')) (Num 25),
                         priority = string_or (map_of taskData ''priority'') ''media'',
                         completed = False,
                         createdAt = isoString \<rparr>;
                   m1 = m\<lparr>tasks := tasks m @ [t]\<rparr>
               in (case save_tasks J (m1, b) of
                     Inl err \<Rightarrow> Inl err
                   | Inr b1 \<Rightarrow> Inr (t, m1, b1))
         | _ \<Rightarrow> Inl (Error ''Title and date are required'')))"

text \<open>
  \<^verbatim>\<open>deleteTask(id) { this.tasks = this.tasks.filter(t => t.id !== id); this.save();
                     this.renderTasks(); }\<close>
  The collection holds tasks as above, so that \<^verbatim>\<open>renderTasks\<close> writes the page and returns.
\<close>

definition deleteTask ::
  "JSON \<Rightarrow> number \<Rightarrow> TaskManager \<times> browser \<Rightarrow> error + TaskManager \<times> browser" where
  "deleteTask J i mb =
     (case mb of (m, b) \<Rightarrow>
        let m1 = m\<lparr>tasks := filter (\<lambda>t. \<not> strict_eq (Num (id_task t)) i) (tasks m)\<rparr>
        in (case save_tasks J (m1, b) of
              Inl err \<Rightarrow> Inl err
            | Inr b1 \<Rightarrow> Inr (m1, b1)))"

text \<open>A run of \<^verbatim>\<open>addTask\<close> calls, each with its clock readings; it stops at the first throw.\<close>

fun addTasks ::
  "JSON \<Rightarrow> (int \<times> string \<times> taskData) list \<Rightarrow> TaskManager \<times> browser \<Rightarrow>
   error + TaskManager \<times> browser" where
  "addTasks J [] mb = Inr mb"
| "addTasks J ((now, isoString, taskData) # calls) mb =
     (case addTask J now isoString taskData mb of
        Inl err \<Rightarrow> Inl err
      | Inr (t, m1, b1) \<Rightarrow> addTasks J calls (m1, b1))"

section \<open>flashcards.js: the study cursor\<close>

record FlashcardManager =
  flashcards :: "jsval list"
  currentCardIndex :: number

text \<open>
  \<^verbatim>\<open>nextCard() { this.currentCardIndex = (this.currentCardIndex + 1) % this.flashcards.length; ... }\<close>
\<close>

definition nextCard :: "FlashcardManager \<Rightarrow> FlashcardManager" where
  "nextCard f =
     f\<lparr>currentCardIndex :=
         num_rem (num_add (currentCardIndex f) (Num 1)) (Num (int (length (flashcards f))))\<rparr>"

text \<open>
  \<^verbatim>\<open>previousCard() { this.currentCardIndex =
     (this.currentCardIndex - 1 + this.flashcards.length) % this.flashcards.length; ... }\<close>
\<close>

definition previousCard :: "FlashcardManager \<Rightarrow> FlashcardManager" where
  "previousCard f =
     f\<lparr>currentCardIndex :=
         num_rem (num_add (num_sub (currentCardIndex f) (Num 1))
                          (Num (int (length (flashcards f)))))
                 (Num (int (length (flashcards f))))\<rparr>"

section \<open>pomodoro.js: the timer and its statistics\<close>

datatype mode = focus | short | long

text \<open>\<^verbatim>\<open>this.modes[mode].time\<close>, in minutes.\<close>

fun modes_time :: "mode \<Rightarrow> int" where
  "modes_time focus = 25"
| "modes_time short = 5"
| "modes_time long = 15"

text \<open>
  The \<^verbatim>\<open>stats\<close> object: its four counters, and in \<open>extra\<close> any further property it took
  over from a persisted record.
\<close>

record stats =
  pomodoroCount :: int
  totalFocusTime :: int
  bestStreak :: int
  currentStreak :: int
  extra :: object

text \<open>
  \<open>interval\<close> tells whether the callback installed by \<^verbatim>\<open>setInterval\<close> is still scheduled.
\<close>

record PomodoroManager =
  time :: number
  interval :: bool
  isRunning :: bool
  currentMode :: mode
  stats :: stats

definition schema :: "string list" where
  "schema = [''pomodoroCount'', ''totalFocusTime'', ''bestStreak'', ''currentStreak'']"

text \<open>The \<^verbatim>\<open>stats\<close> object as a value: what \<^verbatim>\<open>save\<close> hands to \<^verbatim>\<open>JSON.stringify\<close>.\<close>

definition stats_object :: "stats \<Rightarrow> object" where
  "stats_object s =
     [(''pomodoroCount'', JNumber (Num (pomodoroCount s))),
      (''totalFocusTime'', JNumber (Num (totalFocusTime s))),
      (''bestStreak'', JNumber (Num (bestStreak s))),
      (''currentStreak'', JNumber (Num (currentStreak s)))]
     @ extra s"

definition int_property :: "object \<Rightarrow> string \<Rightarrow> int option" where
  "int_property obj k = (case map_of obj k of Some (JNumber (Num n)) \<Rightarrow> Some n | _ \<Rightarrow> None)"

text \<open>
  The typed reading of an object as \<open>stats\<close>. It is \<open>None\<close> when one of the four counters is
  missing or is not an integer: such a record is outside this model (the code keeps it,
  and computes with its values coerced).
\<close>

definition object_stats :: "object \<Rightarrow> stats option" where
  "object_stats obj =
     (case (int_property obj ''pomodoroCount'', int_property obj ''totalFocusTime'',
            int_property obj ''bestStreak'', int_property obj ''currentStreak'') of
        (Some c, Some t, Some bs, Some cs) \<Rightarrow>
          Some \<lparr> pomodoroCount = c, totalFocusTime = t, bestStreak = bs, currentStreak = cs,
                 extra = filter (\<lambda>(k, v). k \<notin> set schema) obj \<rparr>
      | _ \<Rightarrow> None)"

text \<open>
  The own enumerable properties that \<^verbatim>\<open>{...v}\<close> copies: those of an object, the indexed
  elements of an array, the indexed characters of a string, none of any other value.
\<close>

fun own_properties :: "jsval \<Rightarrow> object" where
  "own_properties (JObject kvs) = kvs"
| "own_properties (JArray xs) = zip (map show_nat [0..<length xs]) xs"
| "own_properties (JString s) = zip (map show_nat [0..<length s]) (map (\<lambda>c. JString [c]) s)"
| "own_properties _ = []"

text \<open>
  \<^verbatim>\<open>{ ...a, ...v }\<close>: the properties of \<open>a\<close>, each overwritten in place by the property of \<open>v\<close>
  of the same key, followed by the other properties of \<open>v\<close>. (The engine's reordering of
  integer-like keys is not modelled.)
\<close>

definition spread :: "object \<Rightarrow> jsval \<Rightarrow> object" where
  "spread a v = fold (\<lambda>(k, x). AList.update k x) (own_properties v) a"

text \<open>The constructor's field initialisers, before \<^verbatim>\<open>this.load()\<close>.\<close>

definition initial :: PomodoroManager where
  "initial =
     \<lparr> time = Num (25 * 60), interval = False, isRunning = False, currentMode = focus,
       stats = \<lparr> pomodoroCount = 0, totalFocusTime = 0, bestStreak = 0, currentStreak = 0,
                 extra = [] \<rparr> \<rparr>"

text \<open>
  \<^verbatim>\<open>load() { const savedStats = Storage.get(StorageKeys.POMODORO_STATS);
            if (savedStats) { this.stats = { ...this.stats, ...savedStats }; } }\<close>
  The outer \<open>None\<close> is a merged record outside the model (see \<open>object_stats\<close>).
\<close>

definition load ::
  "JSON \<Rightarrow> PomodoroManager \<times> browser \<Rightarrow> (error + PomodoroManager \<times> browser) option" where
  "load J pb =
     (case pb of (p, b) \<Rightarrow>
        (case Storage_get J b StorageKeys_POMODORO_STATS of
           Inl err \<Rightarrow> Some (Inl err)
         | Inr (savedStats, b1) \<Rightarrow>
             if truthy savedStats
             then map_option (\<lambda>s. Inr (p\<lparr>stats := s\<rparr>, b1))
                    (object_stats (spread (stats_object (stats p)) savedStats))
             else Some (Inr (p, b1))))"

text \<open>\<^verbatim>\<open>save() { Storage.set(StorageKeys.POMODORO_STATS, this.stats); }\<close>\<close>

definition save :: "JSON \<Rightarrow> PomodoroManager \<times> browser \<Rightarrow> error + browser" where
  "save J pb =
     (case pb of (p, b) \<Rightarrow>
        Storage_set J b StorageKeys_POMODORO_STATS (JObject (stats_object (stats p))))"

text \<open>\<^verbatim>\<open>setMode(mode, minutes) { this.currentMode = mode; this.time = minutes * 60; ... }\<close>\<close>

definition setMode :: "mode \<Rightarrow> number \<Rightarrow> PomodoroManager \<Rightarrow> PomodoroManager" where
  "setMode m minutes p = p\<lparr>currentMode := m, time := num_mul minutes (Num 60)\<rparr>"

text \<open>
  \<^verbatim>\<open>start() { if (this.isRunning) return; ... this.isRunning = true;
             this.interval = setInterval(() => { ... }, 1000); }\<close>
\<close>

definition start :: "PomodoroManager \<Rightarrow> PomodoroManager" where
  "start p = (if isRunning p then p else p\<lparr>isRunning := True, interval := True\<rparr>)"

text \<open>\<^verbatim>\<open>pause() { this.isRunning = false; clearInterval(this.interval); ... }\<close>\<close>

definition pause :: "PomodoroManager \<Rightarrow> PomodoroManager" where
  "pause p = p\<lparr>isRunning := False, interval := False\<rparr>"

text \<open>
  \<^verbatim>\<open>reset() { this.pause(); this.time = this.modes[this.currentMode].time * 60; ... }\<close>
\<close>

definition reset :: "PomodoroManager \<Rightarrow> PomodoroManager" where
  "reset p =
     (let p1 = pause p
      in p1\<lparr>time := num_mul (Num (modes_time (currentMode p1))) (Num 60)\<rparr>)"

text \<open>
  \<^verbatim>\<open>complete()\<close>: after \<^verbatim>\<open>this.pause()\<close>, a focus period updates the four counters, saves
  them and switches to a break; a break switches back to focus.
\<close>

definition complete ::
  "JSON \<Rightarrow> PomodoroManager \<times> browser \<Rightarrow> error + PomodoroManager \<times> browser" where
  "complete J pb =
     (case pb of (p, b) \<Rightarrow>
        let p1 = pause p
        in if currentMode p1 = focus
           then
             let s1 = (stats p1)\<lparr>pomodoroCount := pomodoroCount (stats p1) + 1\<rparr>;
                 s2 = s1\<lparr>totalFocusTime := totalFocusTime s1 + modes_time focus\<rparr>;
                 s3 = s2\<lparr>currentStreak := currentStreak s2 + 1\<rparr>;
                 s4 = s3\<lparr>bestStreak := max (bestStreak s3) (currentStreak s3)\<rparr>;
                 p2 = p1\<lparr>stats := s4\<rparr>
             in (case save J (p2, b) of
                   Inl err \<Rightarrow> Inl err
                 | Inr b1 \<Rightarrow>
                     if num_rem (Num (pomodoroCount (stats p2))) (Num 4) = Num 0
                     then Inr (setMode long (Num 15) p2, b1)
                     else Inr (setMode short (Num 5) p2, b1))
           else Inr (setMode focus (Num 25) p1, b))"

text \<open>
  One firing of the interval callback of \<^verbatim>\<open>start\<close>:
  \<^verbatim>\<open>if (this.time > 0) { this.time--; ... } else { this.complete(); }\<close>
  Nothing fires once the interval is cleared.
\<close>

definition tick ::
  "JSON \<Rightarrow> PomodoroManager \<times> browser \<Rightarrow> error + PomodoroManager \<times> browser" where
  "tick J pb =
     (case pb of (p, b) \<Rightarrow>
        if \<not> interval p then Inr (p, b)
        else if num_gt (PomodoroManager.time p) (Num 0)
        then Inr (p\<lparr>PomodoroManager.time := num_sub (PomodoroManager.time p) (Num 1)\<rparr>, b)
        else complete J (p, b))"

text \<open>The operations on the timer, and a run of them from a state.\<close>

datatype timer_op = SetMode mode number | Start | Pause | Reset | Tick | Complete

fun apply_op ::
  "JSON \<Rightarrow> timer_op \<Rightarrow> PomodoroManager \<times> browser \<Rightarrow> error + PomodoroManager \<times> browser" where
  "apply_op J (SetMode m minutes) (p, b) = Inr (setMode m minutes p, b)"
| "apply_op J Start (p, b) = Inr (start p, b)"
| "apply_op J Pause (p, b) = Inr (pause p, b)"
| "apply_op J Reset (p, b) = Inr (reset p, b)"
| "apply_op J Tick (p, b) = tick J (p, b)"
| "apply_op J Complete (p, b) = complete J (p, b)"

fun run ::
  "JSON \<Rightarrow> timer_op list \<Rightarrow> PomodoroManager \<times> browser \<Rightarrow> error + PomodoroManager \<times> browser" where
  "run J [] pb = Inr pb"
| "run J (x # xs) pb = (case apply_op J x pb of Inl err \<Rightarrow> Inl err | Inr pb1 \<Rightarrow> run J xs pb1)"

section \<open>Concrete instances\<close>

text \<open>
  The properties below hold for every \<^verbatim>\<open>JSON.parse\<close> and \<^verbatim>\<open>JSON.stringify\<close>. The examples
  need one instance: this one parses two texts, rejects every other, and writes every value
  as \<^verbatim>\<open>null\<close>.
\<close>

definition saved_text :: string where
  \<open>saved_text = ''{"bestStreak":3,"foo":1}''\<close>

definition saved_value :: jsval where
  "saved_value = JObject [(''bestStreak'', JNumber (Num 3)), (''foo'', JNumber (Num 1))]"

definition example_JSON :: JSON where
  "example_JSON =
     \<lparr> parse = (\<lambda>s. if s = saved_text then Inr saved_value
                      else if s = ''null'' then Inr JNull
                      else Inl SyntaxError),
       stringify = (\<lambda>v. ''null'') \<rparr>"

text \<open>An empty store with room, a store holding one text that does not parse and no room
  for more, and a store that holds a persisted statistics record.\<close>

definition empty_browser :: browser where
  "empty_browser = \<lparr> items = [], denied = False, quota = 5000000, console = [] \<rparr>"

definition full_browser :: browser where
  "full_browser =
     \<lparr> items = [(''eduflow_tasks'', ''[{'')], denied = False, quota = 20, console = [] \<rparr>"

definition saved_browser :: browser where
  "saved_browser =
     \<lparr> items = [(''eduflow_pomodoro'', saved_text)], denied = False, quota = 5000000,
       console = [] \<rparr>"

text \<open>A manager that has completed three focus periods.\<close>

definition fourth :: PomodoroManager where
  "fourth = initial\<lparr>stats := \<lparr> pomodoroCount = 3, totalFocusTime = 75, bestStreak = 3, currentStreak = 3,
                      extra = [] \<rparr>\<rparr>"

text \<open>The timer, stopped in the short break, after one completed focus period.\<close>

definition after_one :: PomodoroManager where
  "after_one =
     \<lparr> time = Num 300, interval = False, isRunning = False, currentMode = short,
       stats = \<lparr> pomodoroCount = 1, totalFocusTime = 25, bestStreak = 1, currentStreak = 1,
                 extra = [] \<rparr> \<rparr>"

text \<open>The task manager before any task is added, and a task as \<^verbatim>\<open>addTask\<close> would build it.\<close>

definition no_tasks :: TaskManager where
  "no_tasks = \<lparr> tasks = [], currentFilter = ''todas'' \<rparr>"

definition sample_task :: "int \<Rightarrow> string \<Rightarrow> task" where
  "sample_task n s =
     \<lparr> id_task = n, title = s, desc = [], date = ''2025-10-23'',
       time = Num 25, priority = ''media'', completed = False,
       createdAt = ''2025-10-23T10:00:00.000Z'' \<rparr>"

section \<open>Properties of the store\<close>

lemma Storage_get_returns: "\<exists>v b'. Storage_get J b key = Inr (v, b')"
  by (auto simp: Storage_get_def try_catch_def getItem_def split: sum.splits option.splits)

lemma Storage_set_returns: "\<exists>b'. Storage_set J b key v = Inr b'"
  by (auto simp: Storage_set_def try_catch_def split: sum.splits)

lemma Storage_get_missing:
  "getItem b key = Inr None \<Longrightarrow> Storage_get J b key = Inr (JNull, b)"
  by (simp add: Storage_get_def try_catch_def)

lemma Storage_get_corrupt:
  "getItem b key = Inr (Some d) \<Longrightarrow> d \<noteq> [] \<Longrightarrow> parse J d = Inl err \<Longrightarrow>
   Storage_get J b key = Inr (JNull, console_error ''Error reading from storage:'' err b)"
  by (simp add: Storage_get_def try_catch_def)

lemma Storage_get_denied:
  "getItem b key = Inl err \<Longrightarrow>
   Storage_get J b key = Inr (JNull, console_error ''Error reading from storage:'' err b)"
  by (simp add: Storage_get_def try_catch_def)

lemma Storage_set_failure:
  "setItem b key (stringify J v) = Inl err \<Longrightarrow>
   Storage_set J b key v = Inr (console_error ''Error writing to storage:'' err b)"
  by (simp add: Storage_set_def try_catch_def)

lemma Storage_set_success:
  "setItem b key (stringify J v) = Inr b' \<Longrightarrow> Storage_set J b key v = Inr b'"
  by (simp add: Storage_set_def try_catch_def)

lemma getItem_console_error [simp]:
  "getItem (console_error msg err b) key = getItem b key"
  by (simp add: getItem_def console_error_def)

lemma getItem_setItem_other:
  "setItem b key data = Inr b' \<Longrightarrow> key' \<noteq> key \<Longrightarrow> getItem b' key' = getItem b key'"
  by (auto simp: setItem_def getItem_def Let_def update_conv' split: if_splits)

lemma Storage_get_value_cong:
  "getItem b1 key = getItem b2 key \<Longrightarrow>
   map_sum id fst (Storage_get J b1 key) = map_sum id fst (Storage_get J b2 key)"
  by (auto simp: Storage_get_def try_catch_def split: sum.splits option.splits)

lemma Storage_set_items:
  "Storage_set J b key v = Inr b' \<Longrightarrow> key' \<noteq> key \<Longrightarrow> getItem b' key' = getItem b key'"
proof (cases "setItem b key (stringify J v)")
  case (Inl err)
  assume "Storage_set J b key v = Inr b'"
  with Inl show ?thesis by (auto simp: Storage_set_failure)
next
  case (Inr b'')
  assume "Storage_set J b key v = Inr b'" and "key' \<noteq> key"
  with Inr show ?thesis by (auto simp: Storage_set_success getItem_setItem_other)
qed

text \<open>
  Claim C3. \<^verbatim>\<open>Storage.get\<close> never raises: it always returns a value, and that value is
  \<^verbatim>\<open>null\<close> when the key is missing, when the stored text does not parse (the cause is
  logged), and when the store cannot be read. \<^verbatim>\<open>Storage.set\<close> never raises: when the write
  fails, for instance on the quota, it logs the cause and leaves the store as it was.
  After a \<^verbatim>\<open>Storage.set\<close>, failed or not, \<^verbatim>\<open>Storage.get\<close> on any other key returns the
  value it returned before.
\<close>

theorem Storage_fail_soft:
  "(\<exists>x b1. Storage_get J b key = Inr (x, b1))
   \<and> (getItem b key = Inr None \<longrightarrow> Storage_get J b key = Inr (JNull, b))
   \<and> (\<forall>d err. getItem b key = Inr (Some d) \<and> d \<noteq> [] \<and> parse J d = Inl err \<longrightarrow>
         Storage_get J b key = Inr (JNull, b\<lparr>console := console b @ [(''Error reading from storage:'', err)]\<rparr>))
   \<and> (\<forall>err. getItem b key = Inl err \<longrightarrow>
         Storage_get J b key = Inr (JNull, b\<lparr>console := console b @ [(''Error reading from storage:'', err)]\<rparr>))
   \<and> (\<exists>b1. Storage_set J b key v = Inr b1)
   \<and> (\<forall>err. setItem b key (stringify J v) = Inl err \<longrightarrow>
         Storage_set J b key v = Inr (b\<lparr>console := console b @ [(''Error writing to storage:'', err)]\<rparr>))
   \<and> (\<forall>b1 key'. Storage_set J b key v = Inr b1 \<and> key' \<noteq> key \<longrightarrow>
         (\<exists>x b2 b3. Storage_get J b key' = Inr (x, b2) \<and> Storage_get J b1 key' = Inr (x, b3)))"
proof (intro conjI allI impI)
  show "\<exists>x b1. Storage_get J b key = Inr (x, b1)"
    by (rule Storage_get_returns)
  show "Storage_get J b key = Inr (JNull, b)" if "getItem b key = Inr None"
    using that by (rule Storage_get_missing)
  show "Storage_get J b key = Inr (JNull, b\<lparr>console := console b @ [(''Error reading from storage:'', err)]\<rparr>)"
    if "getItem b key = Inr (Some d) \<and> d \<noteq> [] \<and> parse J d = Inl err" for d err
    using that Storage_get_corrupt [of b key d J err] by (simp add: console_error_def)
  show "Storage_get J b key = Inr (JNull, b\<lparr>console := console b @ [(''Error reading from storage:'', err)]\<rparr>)"
    if "getItem b key = Inl err" for err
    using that Storage_get_denied [of b key err J] by (simp add: console_error_def)
  show "\<exists>b1. Storage_set J b key v = Inr b1"
    by (rule Storage_set_returns)
  show "Storage_set J b key v = Inr (b\<lparr>console := console b @ [(''Error writing to storage:'', err)]\<rparr>)"
    if "setItem b key (stringify J v) = Inl err" for err
    using that Storage_set_failure [of b key J v err] by (simp add: console_error_def)
  show "\<exists>x b2 b3. Storage_get J b key' = Inr (x, b2) \<and> Storage_get J b1 key' = Inr (x, b3)"
    if h: "Storage_set J b key v = Inr b1 \<and> key' \<noteq> key" for b1 key'
  proof -
    from h have "getItem b1 key' = getItem b key'"
      using Storage_set_items [of J b key v b1 key'] by blast
    then have eq: "map_sum id fst (Storage_get J b1 key') = map_sum id fst (Storage_get J b key')"
      by (rule Storage_get_value_cong)
    obtain x b2 where g: "Storage_get J b key' = Inr (x, b2)"
      using Storage_get_returns by blast
    obtain y b3 where g1: "Storage_get J b1 key' = Inr (y, b3)"
      using Storage_get_returns by blast
    from eq g g1 have "y = x" by simp
    with g g1 show ?thesis by blast
  qed
qed

theorem Storage_fail_soft_witness:
  "getItem full_browser ''eduflow_moods'' = Inr None
   \<and> Storage_get example_JSON full_browser ''eduflow_moods'' = Inr (JNull, full_browser)
   \<and> getItem full_browser ''eduflow_tasks'' = Inr (Some ''[{'')
   \<and> parse example_JSON ''[{'' = Inl SyntaxError
   \<and> Storage_get example_JSON full_browser ''eduflow_tasks'' =
       Inr (JNull, full_browser\<lparr>console := [(''Error reading from storage:'', SyntaxError)]\<rparr>)
   \<and> getItem (full_browser\<lparr>denied := True\<rparr>) ''eduflow_tasks'' = Inl SecurityError
   \<and> Storage_get example_JSON (full_browser\<lparr>denied := True\<rparr>) ''eduflow_tasks'' =
       Inr (JNull, full_browser\<lparr>denied := True,
                                 console := [(''Error reading from storage:'', SecurityError)]\<rparr>)
   \<and> setItem full_browser ''eduflow_pomodoro'' (stringify example_JSON JNull) =
       Inl QuotaExceededError
   \<and> Storage_set example_JSON full_browser ''eduflow_pomodoro'' JNull =
       Inr (full_browser\<lparr>console := [(''Error writing to storage:'', QuotaExceededError)]\<rparr>)
   \<and> ''eduflow_moods'' \<noteq> ''eduflow_pomodoro''
   \<and> Storage_get example_JSON
         (full_browser\<lparr>console := [(''Error writing to storage:'', QuotaExceededError)]\<rparr>)
         ''eduflow_moods'' =
       Inr (JNull, full_browser\<lparr>console := [(''Error writing to storage:'', QuotaExceededError)]\<rparr>)"
proof -
  have missing: "getItem full_browser ''eduflow_moods'' = Inr None"
    by (simp add: getItem_def full_browser_def)
  have stored: "getItem full_browser ''eduflow_tasks'' = Inr (Some ''[{'')"
    by (simp add: getItem_def full_browser_def)
  have corrupt: "parse example_JSON ''[{'' = Inl SyntaxError"
    by (simp add: example_JSON_def saved_text_def)
  have closed: "getItem (full_browser\<lparr>denied := True\<rparr>) ''eduflow_tasks'' = Inl SecurityError"
    by (simp add: getItem_def)
  have quota: "setItem full_browser ''eduflow_pomodoro'' (stringify example_JSON JNull) =
      Inl QuotaExceededError"
    by (simp add: setItem_def full_browser_def example_JSON_def used_def)
  note a = Storage_fail_soft [of example_JSON full_browser "''eduflow_moods''" JNull]
  note b = Storage_fail_soft [of example_JSON full_browser "''eduflow_tasks''" JNull]
  note c = Storage_fail_soft [of example_JSON "full_browser\<lparr>denied := True\<rparr>" "''eduflow_tasks''" JNull]
  note d = Storage_fail_soft [of example_JSON full_browser "''eduflow_pomodoro''" JNull]
  have 1: "Storage_get example_JSON full_browser ''eduflow_moods'' = Inr (JNull, full_browser)"
    using a missing by blast
  have 2: "Storage_get example_JSON full_browser ''eduflow_tasks'' =
       Inr (JNull, full_browser\<lparr>console := [(''Error reading from storage:'', SyntaxError)]\<rparr>)"
    using b stored corrupt by (simp add: full_browser_def)
  have 3: "Storage_get example_JSON (full_browser\<lparr>denied := True\<rparr>) ''eduflow_tasks'' =
       Inr (JNull, full_browser\<lparr>denied := True,
                                 console := [(''Error reading from storage:'', SecurityError)]\<rparr>)"
    using c closed by (simp add: full_browser_def)
  have 4: "Storage_set example_JSON full_browser ''eduflow_pomodoro'' JNull =
       Inr (full_browser\<lparr>console := [(''Error writing to storage:'', QuotaExceededError)]\<rparr>)"
    using d quota by (simp add: full_browser_def)
  have 5: "\<exists>x b2 b3. Storage_get example_JSON full_browser ''eduflow_moods'' = Inr (x, b2)
      \<and> Storage_get example_JSON
          (full_browser\<lparr>console := [(''Error writing to storage:'', QuotaExceededError)]\<rparr>)
          ''eduflow_moods'' = Inr (x, b3)"
    using d 4 by simp
  have 6: "Storage_get example_JSON
         (full_browser\<lparr>console := [(''Error writing to storage:'', QuotaExceededError)]\<rparr>)
         ''eduflow_moods'' =
       Inr (JNull, full_browser\<lparr>console := [(''Error writing to storage:'', QuotaExceededError)]\<rparr>)"
    using 5 1 by (simp add: Storage_get_def try_catch_def getItem_def full_browser_def)
  from missing stored corrupt closed quota 1 2 3 4 6 show ?thesis by simp
qed

section \<open>Properties of the timer\<close>

lemma num_rem_4: "num_rem (Num c) (Num 4) = Num 0 \<longleftrightarrow> c mod 4 = 0"
proof -
  have "sgn c * (\<bar>c\<bar> mod 4) = 0 \<longleftrightarrow> c mod 4 = 0"
  proof (cases "c < 0")
    case True
    then have "sgn c * (\<bar>c\<bar> mod 4) = - ((- c) mod 4)" by (simp add: sgn_if)
    then show ?thesis by presburger
  next
    case False
    then have "sgn c * (\<bar>c\<bar> mod 4) = c mod 4" by (simp add: sgn_if)
    then show ?thesis by simp
  qed
  then show ?thesis by simp
qed

lemma save_returns: "\<exists>b1. save J (p, b) = Inr b1"
  by (simp add: save_def Storage_set_returns)

lemma complete_focus:
  assumes "currentMode p = focus"
    and "s' = (stats p)\<lparr>pomodoroCount := pomodoroCount (stats p) + 1,
                        totalFocusTime := totalFocusTime (stats p) + 25,
                        currentStreak := currentStreak (stats p) + 1,
                        bestStreak := max (bestStreak (stats p)) (currentStreak (stats p) + 1)\<rparr>"
    and "save J (pause p\<lparr>stats := s'\<rparr>, b) = Inr b1"
  shows "complete J (p, b) =
     Inr (if (pomodoroCount (stats p) + 1) mod 4 = 0
          then setMode long (Num 15) (pause p\<lparr>stats := s'\<rparr>)
          else setMode short (Num 5) (pause p\<lparr>stats := s'\<rparr>), b1)"
proof -
  have m: "currentMode (pause p) = focus" using assms(1) by (simp add: pause_def)
  have s: "stats (pause p) = stats p" by (simp add: pause_def)
  show ?thesis
    using assms(2,3) m s num_rem_4 [of "pomodoroCount (stats p) + 1"]
    by (simp add: complete_def Let_def)
qed

lemma complete_break:
  "currentMode p \<noteq> focus \<Longrightarrow> complete J (p, b) = Inr (setMode focus (Num 25) (pause p), b)"
  by (simp add: complete_def Let_def pause_def)


lemma Storage_set_stored:
  assumes "Storage_set J b key v = Inr b1" and "\<not> denied b"
    and "used (AList.update key (stringify J v) (items b)) \<le> quota b"
  shows "map_of (items b1) key = Some (stringify J v)"
  using assms
  by (auto simp: Storage_set_def try_catch_def setItem_def Let_def update_conv' split: if_splits)

text \<open>
  Claim C1. When a focus period expires, \<^verbatim>\<open>complete\<close> adds exactly 1 to \<^verbatim>\<open>pomodoroCount\<close>
  and to \<^verbatim>\<open>currentStreak\<close>, sets \<^verbatim>\<open>bestStreak\<close> to the maximum of its old value and the new
  \<^verbatim>\<open>currentStreak\<close>, hands the new statistics to \<^verbatim>\<open>Storage.set\<close> (which stores them unless
  the write fails), and then selects the long break exactly when the new \<^verbatim>\<open>pomodoroCount\<close>
  is divisible by 4 and the short break otherwise. When a break expires it selects the
  focus mode and leaves the statistics and the store as they were. The interval callback
  calls \<^verbatim>\<open>complete\<close> when it fires with the countdown at 0.
\<close>

theorem complete_counts_and_next_mode:
  "(currentMode p = focus \<longrightarrow>
      (\<exists>p' b'. complete J (p, b) = Inr (p', b')
         \<and> pomodoroCount (stats p') = pomodoroCount (stats p) + 1
         \<and> currentStreak (stats p') = currentStreak (stats p) + 1
         \<and> bestStreak (stats p') = max (bestStreak (stats p)) (currentStreak (stats p'))
         \<and> Storage_set J b StorageKeys_POMODORO_STATS (JObject (stats_object (stats p'))) = Inr b'
         \<and> (\<not> denied b \<and>
              used (AList.update StorageKeys_POMODORO_STATS
                      (stringify J (JObject (stats_object (stats p')))) (items b)) \<le> quota b \<longrightarrow>
              map_of (items b') StorageKeys_POMODORO_STATS =
                Some (stringify J (JObject (stats_object (stats p')))))
         \<and> (currentMode p' = long \<longleftrightarrow> pomodoroCount (stats p') mod 4 = 0)
         \<and> (currentMode p' = short \<longleftrightarrow> pomodoroCount (stats p') mod 4 \<noteq> 0)
         \<and> \<not> isRunning p'))
   \<and> (currentMode p \<noteq> focus \<longrightarrow>
      (\<exists>p'. complete J (p, b) = Inr (p', b)
         \<and> currentMode p' = focus \<and> stats p' = stats p \<and> \<not> isRunning p'))
   \<and> (interval p \<and> PomodoroManager.time p = Num 0 \<longrightarrow> tick J (p, b) = complete J (p, b))"
proof (intro conjI impI)
  assume "interval p \<and> PomodoroManager.time p = Num 0"
  then show "tick J (p, b) = complete J (p, b)"
    by (simp add: tick_def)
next
  assume f: "currentMode p = focus"
  define s' where "s' = (stats p)\<lparr>pomodoroCount := pomodoroCount (stats p) + 1,
                        totalFocusTime := totalFocusTime (stats p) + 25,
                        currentStreak := currentStreak (stats p) + 1,
                        bestStreak := max (bestStreak (stats p)) (currentStreak (stats p) + 1)\<rparr>"
  define p2 where "p2 = pause p\<lparr>stats := s'\<rparr>"
  obtain b1 where sv: "save J (p2, b) = Inr b1"
    using save_returns by blast
  define p' where "p' = (if (pomodoroCount (stats p) + 1) mod 4 = 0
          then setMode long (Num 15) p2 else setMode short (Num 5) p2)"
  have c: "complete J (p, b) = Inr (p', b1)"
    using complete_focus [OF f s'_def, of J b b1] sv by (simp add: p'_def p2_def)
  have st: "stats p' = s'"
    by (simp add: p'_def p2_def setMode_def)
  have set: "Storage_set J b StorageKeys_POMODORO_STATS (JObject (stats_object (stats p'))) = Inr b1"
    using sv by (simp add: save_def st p2_def)
  have md: "currentMode p' = (if (pomodoroCount (stats p) + 1) mod 4 = 0 then long else short)"
    by (simp add: p'_def setMode_def)
  have run: "\<not> isRunning p'"
    by (simp add: p'_def p2_def setMode_def pause_def)
  show "\<exists>p' b'. complete J (p, b) = Inr (p', b')
         \<and> pomodoroCount (stats p') = pomodoroCount (stats p) + 1
         \<and> currentStreak (stats p') = currentStreak (stats p) + 1
         \<and> bestStreak (stats p') = max (bestStreak (stats p)) (currentStreak (stats p'))
         \<and> Storage_set J b StorageKeys_POMODORO_STATS (JObject (stats_object (stats p'))) = Inr b'
         \<and> (\<not> denied b \<and>
              used (AList.update StorageKeys_POMODORO_STATS
                      (stringify J (JObject (stats_object (stats p')))) (items b)) \<le> quota b \<longrightarrow>
              map_of (items b') StorageKeys_POMODORO_STATS =
                Some (stringify J (JObject (stats_object (stats p')))))
         \<and> (currentMode p' = long \<longleftrightarrow> pomodoroCount (stats p') mod 4 = 0)
         \<and> (currentMode p' = short \<longleftrightarrow> pomodoroCount (stats p') mod 4 \<noteq> 0)
         \<and> \<not> isRunning p'"
  proof (intro exI conjI)
    show "complete J (p, b) = Inr (p', b1)" by (rule c)
    show "pomodoroCount (stats p') = pomodoroCount (stats p) + 1" by (simp add: st s'_def)
    show "currentStreak (stats p') = currentStreak (stats p) + 1" by (simp add: st s'_def)
    show "bestStreak (stats p') = max (bestStreak (stats p)) (currentStreak (stats p'))"
      by (simp add: st s'_def)
    show "Storage_set J b StorageKeys_POMODORO_STATS (JObject (stats_object (stats p'))) = Inr b1"
      by (rule set)
    show "\<not> denied b \<and>
              used (AList.update StorageKeys_POMODORO_STATS
                      (stringify J (JObject (stats_object (stats p')))) (items b)) \<le> quota b \<longrightarrow>
              map_of (items b1) StorageKeys_POMODORO_STATS =
                Some (stringify J (JObject (stats_object (stats p'))))"
      using Storage_set_stored [OF set] by blast
    show "currentMode p' = long \<longleftrightarrow> pomodoroCount (stats p') mod 4 = 0"
      by (simp add: md st s'_def)
    show "currentMode p' = short \<longleftrightarrow> pomodoroCount (stats p') mod 4 \<noteq> 0"
      by (simp add: md st s'_def)
    show "\<not> isRunning p'" by (rule run)
  qed
next
  assume "currentMode p \<noteq> focus"
  then have "complete J (p, b) = Inr (setMode focus (Num 25) (pause p), b)"
    by (rule complete_break)
  then show "\<exists>p'. complete J (p, b) = Inr (p', b)
         \<and> currentMode p' = focus \<and> stats p' = stats p \<and> \<not> isRunning p'"
    by (simp add: setMode_def pause_def)
qed


theorem complete_counts_and_next_mode_witness:
  "currentMode initial = focus
   \<and> (\<exists>p' b'. complete example_JSON (initial, empty_browser) = Inr (p', b')
         \<and> pomodoroCount (stats p') = 1 \<and> currentStreak (stats p') = 1
         \<and> bestStreak (stats p') = 1 \<and> currentMode p' = short
         \<and> map_of (items b') ''eduflow_pomodoro'' = Some ''null'')
   \<and> currentMode fourth = focus
   \<and> (\<exists>p' b'. complete example_JSON (fourth, empty_browser) = Inr (p', b')
         \<and> pomodoroCount (stats p') = 4 \<and> currentMode p' = long)
   \<and> currentMode (setMode short (Num 5) initial) \<noteq> focus
   \<and> (\<exists>p'. complete example_JSON (setMode short (Num 5) initial, empty_browser) =
               Inr (p', empty_browser)
         \<and> currentMode p' = focus \<and> stats p' = stats initial)
   \<and> interval (start (setMode focus (Num 0) initial))
   \<and> PomodoroManager.time (start (setMode focus (Num 0) initial)) = Num 0
   \<and> tick example_JSON (start (setMode focus (Num 0) initial), empty_browser) =
       complete example_JSON (start (setMode focus (Num 0) initial), empty_browser)"
proof -
  have 4: "interval (start (setMode focus (Num 0) initial))"
    and 5: "PomodoroManager.time (start (setMode focus (Num 0) initial)) = Num 0"
    by (simp_all add: start_def setMode_def initial_def)
  from complete_counts_and_next_mode
         [of "start (setMode focus (Num 0) initial)" example_JSON empty_browser] 4 5
  have 6: "tick example_JSON (start (setMode focus (Num 0) initial), empty_browser) =
       complete example_JSON (start (setMode focus (Num 0) initial), empty_browser)"
    by blast
  have 1: "currentMode initial = focus" by (simp add: initial_def)
  have 2: "currentMode fourth = focus" by (simp add: fourth_def initial_def)
  have 3: "currentMode (setMode short (Num 5) initial) \<noteq> focus" by (simp add: setMode_def)
  have q: "\<not> denied empty_browser \<and>
      used (AList.update StorageKeys_POMODORO_STATS (stringify example_JSON v) (items empty_browser))
        \<le> quota empty_browser" for v
    by (simp add: empty_browser_def example_JSON_def used_def StorageKeys_POMODORO_STATS_def)
  have a: "\<exists>p' b'. complete example_JSON (initial, empty_browser) = Inr (p', b')
         \<and> pomodoroCount (stats p') = 1 \<and> currentStreak (stats p') = 1
         \<and> bestStreak (stats p') = 1 \<and> currentMode p' = short
         \<and> map_of (items b') ''eduflow_pomodoro'' = Some ''null''"
    using complete_counts_and_next_mode [of initial example_JSON empty_browser] 1 q
    apply (simp add: StorageKeys_POMODORO_STATS_def)
    apply (elim exE conjE)
    subgoal for p' b'
      by (rule exI [of _ p']) (simp add: initial_def example_JSON_def)
    done
  have b: "\<exists>p' b'. complete example_JSON (fourth, empty_browser) = Inr (p', b')
         \<and> pomodoroCount (stats p') = 4 \<and> currentMode p' = long"
    using complete_counts_and_next_mode [of fourth example_JSON empty_browser] 2
    apply simp
    apply (elim exE conjE)
    subgoal for p' b'
      by (rule exI [of _ p']) (simp add: fourth_def)
    done
  have c: "\<exists>p'. complete example_JSON (setMode short (Num 5) initial, empty_browser) =
               Inr (p', empty_browser)
         \<and> currentMode p' = focus \<and> stats p' = stats initial"
    using complete_counts_and_next_mode
            [of "setMode short (Num 5) initial" example_JSON empty_browser] 3
    by (auto simp: setMode_def)
  from 1 2 3 4 5 6 a b c show ?thesis by blast
qed

lemma complete_returns: "\<exists>p' b'. complete J (p, b) = Inr (p', b')"
proof (cases "currentMode p = focus")
  case True
  obtain b1 where "save J (pause p\<lparr>stats := (stats p)\<lparr>pomodoroCount := pomodoroCount (stats p) + 1,
                        totalFocusTime := totalFocusTime (stats p) + 25,
                        currentStreak := currentStreak (stats p) + 1,
                        bestStreak := max (bestStreak (stats p)) (currentStreak (stats p) + 1)\<rparr>\<rparr>, b)
      = Inr b1"
    using save_returns by blast
  from complete_focus [OF True refl this] show ?thesis by blast
next
  case False
  then show ?thesis by (simp add: complete_break)
qed

lemma complete_stats:
  assumes "complete J (p, b) = Inr (p', b')"
  shows "stats p' =
     (if currentMode p = focus
      then (stats p)\<lparr>pomodoroCount := pomodoroCount (stats p) + 1,
                      totalFocusTime := totalFocusTime (stats p) + 25,
                      currentStreak := currentStreak (stats p) + 1,
                      bestStreak := max (bestStreak (stats p)) (currentStreak (stats p) + 1)\<rparr>
      else stats p)"
proof (cases "currentMode p = focus")
  case True
  obtain b1 where "save J (pause p\<lparr>stats := (stats p)\<lparr>pomodoroCount := pomodoroCount (stats p) + 1,
                        totalFocusTime := totalFocusTime (stats p) + 25,
                        currentStreak := currentStreak (stats p) + 1,
                        bestStreak := max (bestStreak (stats p)) (currentStreak (stats p) + 1)\<rparr>\<rparr>, b)
      = Inr b1"
    using save_returns by blast
  from complete_focus [OF True refl this] assms True show ?thesis
    by (auto simp: setMode_def split: if_splits)
next
  case False
  with assms show ?thesis by (auto simp: complete_break setMode_def pause_def)
qed

lemma apply_op_returns: "\<exists>p' b'. apply_op J x (p, b) = Inr (p', b')"
  by (cases x) (auto simp: tick_def complete_returns)

lemma complete_bestStreak:
  assumes "complete J (p, b) = Inr (p', b')"
  shows "bestStreak (stats p) \<le> bestStreak (stats p')"
    and "stats p' \<noteq> stats p \<Longrightarrow> currentStreak (stats p') \<le> bestStreak (stats p')"
  using complete_stats [OF assms] by (auto split: if_splits)

lemma apply_op_bestStreak:
  assumes "apply_op J x (p, b) = Inr (p', b')"
  shows "bestStreak (stats p) \<le> bestStreak (stats p')"
    and "stats p' \<noteq> stats p \<Longrightarrow> currentStreak (stats p') \<le> bestStreak (stats p')"
  using assms
  by (cases x; auto simp: setMode_def start_def pause_def reset_def Let_def tick_def
        dest: complete_bestStreak split: if_splits)+

lemma run_returns: "\<exists>p' b'. run J ops (p, b) = Inr (p', b')"
proof (induction ops arbitrary: p b)
  case Nil
  show ?case by simp
next
  case (Cons x xs)
  obtain p1 b1 where "apply_op J x (p, b) = Inr (p1, b1)"
    using apply_op_returns by blast
  with Cons.IH [of p1 b1] show ?case by simp
qed

lemma run_bestStreak:
  "run J ops (p, b) = Inr (p', b') \<Longrightarrow> bestStreak (stats p) \<le> bestStreak (stats p')"
proof (induction ops arbitrary: p b)
  case Nil
  then show ?case by simp
next
  case (Cons x xs)
  obtain p1 b1 where s: "apply_op J x (p, b) = Inr (p1, b1)"
    using apply_op_returns by blast
  with Cons.prems have "run J xs (p1, b1) = Inr (p', b')" by simp
  then have "bestStreak (stats p1) \<le> bestStreak (stats p')" by (rule Cons.IH)
  moreover have "bestStreak (stats p) \<le> bestStreak (stats p1)"
    using s by (rule apply_op_bestStreak(1))
  ultimately show ?case by simp
qed

text \<open>
  Claim C2. Every sequence of timer operations (\<^verbatim>\<open>setMode\<close>, \<^verbatim>\<open>start\<close>, \<^verbatim>\<open>pause\<close>,
  \<^verbatim>\<open>reset\<close>, a firing of the interval, \<^verbatim>\<open>complete\<close>) runs to its end from every state, and
  \<^verbatim>\<open>bestStreak\<close> at the end is at least \<^verbatim>\<open>bestStreak\<close> at the start. Whenever one operation
  changes the statistics, \<^verbatim>\<open>bestStreak\<close> is at least \<^verbatim>\<open>currentStreak\<close> right after it.
\<close>

theorem bestStreak_never_decreases:
  "(\<exists>p' b'. run J ops (p, b) = Inr (p', b'))
   \<and> (\<forall>p' b'. run J ops (p, b) = Inr (p', b') \<longrightarrow> bestStreak (stats p) \<le> bestStreak (stats p'))
   \<and> (\<forall>x p' b'. apply_op J x (p, b) = Inr (p', b') \<and> stats p' \<noteq> stats p \<longrightarrow>
         currentStreak (stats p') \<le> bestStreak (stats p'))"
  using run_returns [of J ops p b] run_bestStreak [of J ops p b]
    apply_op_bestStreak(2) [of J _ p b]
  by blast

theorem bestStreak_never_decreases_witness:
  "run example_JSON [Start, Tick, SetMode focus (Num 0), Tick, Reset] (initial, empty_browser) =
     Inr (after_one, empty_browser\<lparr>items := [(''eduflow_pomodoro'', ''null'')]\<rparr>)
   \<and> bestStreak (stats initial) \<le> bestStreak (stats after_one)
   \<and> apply_op example_JSON Complete (initial, empty_browser) =
     Inr (after_one, empty_browser\<lparr>items := [(''eduflow_pomodoro'', ''null'')]\<rparr>)
   \<and> stats after_one \<noteq> stats initial
   \<and> currentStreak (stats after_one) \<le> bestStreak (stats after_one)"
proof -
  have c: "complete example_JSON (p, empty_browser) =
     Inr (after_one, empty_browser\<lparr>items := [(''eduflow_pomodoro'', ''null'')]\<rparr>)"
    if "currentMode p = focus" and "stats p = stats initial" for p
    using that
    by (simp add: complete_def initial_def pause_def save_def Storage_set_def try_catch_def
      setItem_def empty_browser_def example_JSON_def used_def setMode_def after_one_def
      StorageKeys_POMODORO_STATS_def Let_def)
  have r: "run example_JSON [Start, Tick, SetMode focus (Num 0), Tick, Reset] (initial, empty_browser) =
     Inr (after_one, empty_browser\<lparr>items := [(''eduflow_pomodoro'', ''null'')]\<rparr>)"
    by (simp add: start_def tick_def setMode_def c reset_def pause_def initial_def)
       (simp add: after_one_def)
  have a: "apply_op example_JSON Complete (initial, empty_browser) =
     Inr (after_one, empty_browser\<lparr>items := [(''eduflow_pomodoro'', ''null'')]\<rparr>)"
    by (simp add: c initial_def)
  have n: "stats after_one \<noteq> stats initial"
    by (simp add: initial_def after_one_def)
  note t = bestStreak_never_decreases [of example_JSON
      "[Start, Tick, SetMode focus (Num 0), Tick, Reset]" initial empty_browser]
  from t r have "bestStreak (stats initial) \<le> bestStreak (stats after_one)" by blast
  moreover from t a n have "currentStreak (stats after_one) \<le> bestStreak (stats after_one)"
    by blast
  ultimately show ?thesis using r a n by blast
qed

text \<open>
  Claim C6 says that the expiry of a focus period adds the minutes configured by the most
  recent \<^verbatim>\<open>setMode\<close> call. After \<^verbatim>\<open>setMode('focus', 50)\<close> the countdown is 50 minutes, and
  \<^verbatim>\<open>complete\<close> adds 25 to \<^verbatim>\<open>totalFocusTime\<close>, not 50.
\<close>

theorem complete_ignores_configured_minutes_counterexample:
  "PomodoroManager.time (setMode focus (Num 50) initial) = Num (50 * 60)
   \<and> map_sum id (totalFocusTime \<circ> stats \<circ> fst)
        (complete example_JSON (setMode focus (Num 50) initial, empty_browser)) =
       Inr (totalFocusTime (stats initial) + 25)
   \<and> map_sum id (totalFocusTime \<circ> stats \<circ> fst)
        (complete example_JSON (setMode focus (Num 50) initial, empty_browser)) \<noteq>
       Inr (totalFocusTime (stats initial) + 50)"
  by (simp add: complete_def initial_def pause_def save_def Storage_set_def try_catch_def
      setItem_def empty_browser_def example_JSON_def used_def setMode_def
      StorageKeys_POMODORO_STATS_def Let_def)

text \<open>
  Claim C6, amended. When a focus period expires, \<^verbatim>\<open>complete\<close> adds the focus duration of
  the mode table, \<^verbatim>\<open>this.modes.focus.time\<close> = 25 minutes, to \<^verbatim>\<open>totalFocusTime\<close>, whatever
  number of minutes the most recent \<^verbatim>\<open>setMode\<close> call passed.
\<close>

theorem complete_adds_fixed_minutes:
  "\<exists>p' b'. complete J (setMode focus minutes p, b) = Inr (p', b')
     \<and> totalFocusTime (stats p') = totalFocusTime (stats p) + modes_time focus
     \<and> modes_time focus = 25"
proof -
  obtain p' b' where c: "complete J (setMode focus minutes p, b) = Inr (p', b')"
    using complete_returns by blast
  from complete_stats [OF c] have "totalFocusTime (stats p') = totalFocusTime (stats p) + 25"
    by (simp add: setMode_def)
  with c show ?thesis by simp
qed

text \<open>
  Claim C9 says that \<^verbatim>\<open>setMode\<close> replaces a non-numeric or non-positive duration by the
  default of the mode. \<^verbatim>\<open>setMode('focus', -5)\<close> sets the countdown to -300 seconds, not to
  the 1500 seconds of the default.
\<close>

theorem setMode_negative_minutes_counterexample:
  "PomodoroManager.time (setMode focus (Num (- 5)) initial) = Num (- 300)
   \<and> PomodoroManager.time (setMode focus (Num (- 5)) initial) \<noteq> Num (modes_time focus * 60)"
  by (simp add: setMode_def)

text \<open>
  Claim C9, amended. \<^verbatim>\<open>setMode(mode, minutes)\<close> raises no error and does not coerce the
  duration: the countdown becomes \<^verbatim>\<open>minutes * 60\<close> for every number, so it is non-positive
  for a non-positive duration and \<^verbatim>\<open>NaN\<close> for \<^verbatim>\<open>NaN\<close>, and it is the default of the mode
  only when \<^verbatim>\<open>minutes\<close> is that default. The mode is set and the statistics are untouched.
\<close>

theorem setMode_no_coercion:
  "apply_op J (SetMode m minutes) (p, b) = Inr (setMode m minutes p, b)
   \<and> PomodoroManager.time (setMode m (Num n) p) = Num (n * 60)
   \<and> PomodoroManager.time (setMode m NaN p) = NaN
   \<and> (PomodoroManager.time (setMode m (Num n) p) = Num (modes_time m * 60) \<longleftrightarrow> n = modes_time m)
   \<and> currentMode (setMode m minutes p) = m
   \<and> stats (setMode m minutes p) = stats p"
  by (simp add: setMode_def)

section \<open>Properties of loading the statistics\<close>

lemma map_of_fold_update:
  "map_of (fold (\<lambda>(k, x). AList.update k x) kvs a) = map_of a ++ map_of (rev kvs)"
proof (induction kvs arbitrary: a)
  case Nil
  show ?case by simp
next
  case (Cons kv kvs)
  obtain k x where kv: "kv = (k, x)" by (cases kv)
  have "map_of (fold (\<lambda>(k, x). AList.update k x) (kv # kvs) a) =
        map_of (AList.update k x a) ++ map_of (rev kvs)"
    using Cons.IH [of "AList.update k x a"] by (simp add: kv)
  also have "\<dots> = map_of a ++ map_of (rev (kv # kvs))"
    by (simp add: kv update_conv' map_add_upd_left fun_eq_iff map_add_def split: option.splits)
  finally show ?case .
qed

lemma map_of_spread_object:
  "map_of (spread a (JObject kvs)) = map_of a ++ map_of (rev kvs)"
  by (simp add: spread_def map_of_fold_update)

lemma map_of_filter_schema:
  "map_of (filter (\<lambda>(k, v). k \<notin> set schema) obj) k =
     (if k \<in> set schema then None else map_of obj k)"
  by (induction obj) auto

lemma int_property_Some: "int_property obj k = Some n \<longleftrightarrow> map_of obj k = Some (JNumber (Num n))"
  by (auto simp: int_property_def split: option.splits jsval.splits number.splits)

lemma object_stats_map_of:
  assumes "object_stats obj = Some s"
  shows "map_of (stats_object s) = map_of obj"
proof -
  from assms obtain c t bs cs where
    c: "map_of obj ''pomodoroCount'' = Some (JNumber (Num c))" and
    t: "map_of obj ''totalFocusTime'' = Some (JNumber (Num t))" and
    bs: "map_of obj ''bestStreak'' = Some (JNumber (Num bs))" and
    cs: "map_of obj ''currentStreak'' = Some (JNumber (Num cs))" and
    s: "s = \<lparr> pomodoroCount = c, totalFocusTime = t, bestStreak = bs, currentStreak = cs,
                 extra = filter (\<lambda>(k, v). k \<notin> set schema) obj \<rparr>"
    by (auto simp: object_stats_def int_property_Some [symmetric] split: option.splits)
  show ?thesis
  proof
    fix k
    show "map_of (stats_object s) k = map_of obj k"
      using c t bs cs
      by (simp add: s stats_object_def map_of_filter_schema) (simp add: schema_def)
  qed
qed

lemma object_stats_defined:
  assumes "\<forall>k\<in>set schema. \<exists>n. map_of obj k = Some (JNumber (Num n))"
  shows "\<exists>s. object_stats obj = Some s"
proof -
  from assms have "\<forall>k\<in>set schema. \<exists>n. int_property obj k = Some n"
    by (simp add: int_property_Some)
  then show ?thesis
    by (auto simp: object_stats_def schema_def)
qed

lemma stats_object_schema:
  "k \<in> set schema \<Longrightarrow> \<exists>n. map_of (stats_object s) k = Some (JNumber (Num n))"
  by (auto simp: schema_def stats_object_def)

lemma load_falsy:
  "Storage_get J b StorageKeys_POMODORO_STATS = Inr (x, b1) \<Longrightarrow> \<not> truthy x \<Longrightarrow>
   load J (p, b) = Some (Inr (p, b1))"
  by (simp add: load_def)

lemma load_object:
  "Storage_get J b StorageKeys_POMODORO_STATS = Inr (JObject kvs, b1) \<Longrightarrow>
   load J (p, b) =
     map_option (\<lambda>s. Inr (p\<lparr>stats := s\<rparr>, b1))
       (object_stats (spread (stats_object (stats p)) (JObject kvs)))"
  by (simp add: load_def)

lemma saved_text_nonempty: "saved_text \<noteq> []"
  by (simp add: saved_text_def)

text \<open>
  Claim C8 says that fields of the persisted record outside the schema are absent from the
  statistics after loading. With \<^verbatim>\<open>{"bestStreak":3,"foo":1}\<close> persisted, the loaded record
  has the property \<^verbatim>\<open>foo\<close>.
\<close>

theorem load_keeps_extra_fields_counterexample:
  "load example_JSON (initial, saved_browser) =
     Some (Inr (initial\<lparr>stats :=
                  \<lparr> pomodoroCount = 0, totalFocusTime = 0, bestStreak = 3, currentStreak = 0,
                    extra = [(''foo'', JNumber (Num 1))] \<rparr>\<rparr>, saved_browser))
   \<and> map_of (stats_object
        \<lparr> pomodoroCount = 0, totalFocusTime = 0, bestStreak = 3, currentStreak = 0,
          extra = [(''foo'', JNumber (Num 1))] \<rparr>) ''foo'' = Some (JNumber (Num 1))"
  by (simp add: load_def Storage_get_def try_catch_def getItem_def saved_browser_def
      StorageKeys_POMODORO_STATS_def example_JSON_def saved_value_def spread_def initial_def
      stats_object_def object_stats_def int_property_def schema_def saved_text_nonempty)

text \<open>
  Claim C8, amended. Loading merges a persisted record over the statistics the manager has
  (the zeros of the constructor): every key of the persisted record, in the schema or not,
  is in the loaded record with its persisted value, and every other key keeps the value it
  had. The load goes through whenever the persisted values of the four counters are
  integers; when nothing usable is persisted the statistics stay as they were.
\<close>

theorem load_merges_persisted_record:
  "(\<forall>x b1. Storage_get J b StorageKeys_POMODORO_STATS = Inr (x, b1) \<and> \<not> truthy x \<longrightarrow>
       load J (p, b) = Some (Inr (p, b1)))
   \<and> (\<forall>kvs b1. Storage_get J b StorageKeys_POMODORO_STATS = Inr (JObject kvs, b1) \<longrightarrow>
        ((\<forall>k\<in>set schema. \<forall>x. map_of (rev kvs) k = Some x \<longrightarrow> (\<exists>n. x = JNumber (Num n))) \<longrightarrow>
           (\<exists>p'. load J (p, b) = Some (Inr (p', b1))))
        \<and> (\<forall>p' b'. load J (p, b) = Some (Inr (p', b')) \<longrightarrow>
             b' = b1
             \<and> p' = p\<lparr>stats := stats p'\<rparr>
             \<and> (\<forall>k. map_of (stats_object (stats p')) k =
                   (case map_of (rev kvs) k of
                      Some x \<Rightarrow> Some x
                    | None \<Rightarrow> map_of (stats_object (stats p)) k))))"
proof (intro conjI allI impI)
  fix x b1
  assume "Storage_get J b StorageKeys_POMODORO_STATS = Inr (x, b1) \<and> \<not> truthy x"
  then show "load J (p, b) = Some (Inr (p, b1))"
    by (simp add: load_falsy)
next
  fix kvs b1
  assume g: "Storage_get J b StorageKeys_POMODORO_STATS = Inr (JObject kvs, b1)"
    and ints: "\<forall>k\<in>set schema. \<forall>x. map_of (rev kvs) k = Some x \<longrightarrow> (\<exists>n. x = JNumber (Num n))"
  have "\<forall>k\<in>set schema. \<exists>n.
      map_of (spread (stats_object (stats p)) (JObject kvs)) k = Some (JNumber (Num n))"
  proof
    fix k
    assume k: "k \<in> set schema"
    show "\<exists>n. map_of (spread (stats_object (stats p)) (JObject kvs)) k = Some (JNumber (Num n))"
      using ints k stats_object_schema [OF k, of "stats p"]
      by (auto simp: map_of_spread_object map_add_def split: option.splits)
  qed
  then obtain s where "object_stats (spread (stats_object (stats p)) (JObject kvs)) = Some s"
    using object_stats_defined by blast
  then show "\<exists>p'. load J (p, b) = Some (Inr (p', b1))"
    by (simp add: load_object [OF g])
next
  fix kvs b1 p' b'
  assume g: "Storage_get J b StorageKeys_POMODORO_STATS = Inr (JObject kvs, b1)"
    and l: "load J (p, b) = Some (Inr (p', b'))"
  from l obtain s where
    s: "object_stats (spread (stats_object (stats p)) (JObject kvs)) = Some s" and
    p': "p' = p\<lparr>stats := s\<rparr>" and b': "b' = b1"
    by (auto simp: load_object [OF g])
  show "b' = b1" by (rule b')
  show "p' = p\<lparr>stats := stats p'\<rparr>" by (simp add: p')
  show "map_of (stats_object (stats p')) k =
           (case map_of (rev kvs) k of
              Some x \<Rightarrow> Some x
            | None \<Rightarrow> map_of (stats_object (stats p)) k)" for k
    by (simp add: p' object_stats_map_of [OF s] map_of_spread_object map_add_def)
qed

theorem load_merges_persisted_record_witness:
  "Storage_get example_JSON empty_browser StorageKeys_POMODORO_STATS = Inr (JNull, empty_browser)
   \<and> \<not> truthy JNull
   \<and> load example_JSON (initial, empty_browser) = Some (Inr (initial, empty_browser))
   \<and> Storage_get example_JSON saved_browser StorageKeys_POMODORO_STATS =
       Inr (JObject [(''bestStreak'', JNumber (Num 3)), (''foo'', JNumber (Num 1))], saved_browser)
   \<and> (\<exists>p'. load example_JSON (initial, saved_browser) = Some (Inr (p', saved_browser))
         \<and> map_of (stats_object (stats p')) ''bestStreak'' = Some (JNumber (Num 3))
         \<and> map_of (stats_object (stats p')) ''currentStreak'' = Some (JNumber (Num 0))
         \<and> map_of (stats_object (stats p')) ''foo'' = Some (JNumber (Num 1)))"
proof -
  have e: "Storage_get example_JSON empty_browser StorageKeys_POMODORO_STATS =
      Inr (JNull, empty_browser)"
    by (simp add: Storage_get_def try_catch_def getItem_def empty_browser_def)
  have g: "Storage_get example_JSON saved_browser StorageKeys_POMODORO_STATS =
       Inr (JObject [(''bestStreak'', JNumber (Num 3)), (''foo'', JNumber (Num 1))], saved_browser)"
    by (simp add: Storage_get_def try_catch_def getItem_def saved_browser_def
        StorageKeys_POMODORO_STATS_def example_JSON_def saved_value_def saved_text_nonempty)
  have ints: "\<forall>k\<in>set schema. \<forall>x.
      map_of (rev [(''bestStreak'', JNumber (Num 3)), (''foo'', JNumber (Num 1))]) k = Some x \<longrightarrow>
      (\<exists>n. x = JNumber (Num n))"
    by (simp add: schema_def)
  note t0 = load_merges_persisted_record [of example_JSON empty_browser initial]
  note t1 = load_merges_persisted_record [of example_JSON saved_browser initial]
  from t0 e have l0: "load example_JSON (initial, empty_browser) = Some (Inr (initial, empty_browser))"
    by simp
  from t1 g ints obtain p' where
    l1: "load example_JSON (initial, saved_browser) = Some (Inr (p', saved_browser))"
    by blast
  from t1 g l1 have m: "map_of (stats_object (stats p')) k =
      (case map_of (rev [(''bestStreak'', JNumber (Num 3)), (''foo'', JNumber (Num 1))]) k of
         Some x \<Rightarrow> Some x
       | None \<Rightarrow> map_of (stats_object (stats initial)) k)" for k
    by blast
  have "map_of (stats_object (stats p')) ''bestStreak'' = Some (JNumber (Num 3))"
    and "map_of (stats_object (stats p')) ''currentStreak'' = Some (JNumber (Num 0))"
    and "map_of (stats_object (stats p')) ''foo'' = Some (JNumber (Num 1))"
    unfolding m by (simp_all add: stats_object_def initial_def)
  with e g l0 l1 show ?thesis by simp
qed

section \<open>Properties of the task manager\<close>

lemma save_tasks_returns: "\<exists>b1. save_tasks J (m, b) = Inr b1"
  by (simp add: save_tasks_def Storage_set_returns)





lemma parseInt_skips_no_break_space: "parseInt (Some [CHR 0xA0, CHR ''7'']) = Num 7"
  by code_simp






lemma strict_eq_Num: "strict_eq (Num a) i \<longleftrightarrow> i = Num a"
  by (cases i) auto

lemma count_list_filter_if:
  "count_list (filter P xs) x = (if P x then count_list xs x else 0)"
  by (induction xs) auto

lemma deleteTask_result:
  "save_tasks J (m\<lparr>tasks := filter (\<lambda>t. i \<noteq> Num (id_task t)) (tasks m)\<rparr>, b) = Inr b1 \<Longrightarrow>
   deleteTask J i (m, b) = Inr (m\<lparr>tasks := filter (\<lambda>t. i \<noteq> Num (id_task t)) (tasks m)\<rparr>, b1)"
  by (simp add: deleteTask_def Let_def strict_eq_Num)

text \<open>
  Claim C10. On every collection of tasks (their title, description, date and priority
  being strings), \<^verbatim>\<open>deleteTask(id)\<close> returns with a collection in which no task has the given
  id (so every task with that id is gone, however many there were); the collection is a
  subsequence of the old one, so order and fields of what remains are as before, and every
  task with another id occurs as often as before. When no task has the id the manager is
  unchanged. In every case the resulting collection is handed to \<^verbatim>\<open>Storage.set\<close>.
\<close>

theorem deleteTask_removes_matching:
  "\<exists>m' b1. deleteTask J i (m, b) = Inr (m', b1)
     \<and> (\<forall>t\<in>set (tasks m'). i \<noteq> Num (id_task t))
     \<and> subseq (tasks m') (tasks m)
     \<and> (\<forall>t. i \<noteq> Num (id_task t) \<longrightarrow> count_list (tasks m') t = count_list (tasks m) t)
     \<and> currentFilter m' = currentFilter m
     \<and> ((\<forall>t\<in>set (tasks m). i \<noteq> Num (id_task t)) \<longrightarrow> m' = m)
     \<and> save_tasks J (m', b) = Inr b1
     \<and> (\<not> denied b \<and>
          used (AList.update StorageKeys_TASKS
                  (stringify J (JArray (map task_object (tasks m')))) (items b)) \<le> quota b \<longrightarrow>
          map_of (items b1) StorageKeys_TASKS =
            Some (stringify J (JArray (map task_object (tasks m')))))"
proof -
  define m' where "m' = m\<lparr>tasks := filter (\<lambda>t. i \<noteq> Num (id_task t)) (tasks m)\<rparr>"
  obtain b1 where sv: "save_tasks J (m', b) = Inr b1"
    using save_tasks_returns by blast
  have d: "deleteTask J i (m, b) = Inr (m', b1)"
    using sv unfolding m'_def by (rule deleteTask_result)
  have ts: "tasks m' = filter (\<lambda>t. i \<noteq> Num (id_task t)) (tasks m)"
    by (simp add: m'_def)
  have same: "m' = m" if "\<forall>t\<in>set (tasks m). i \<noteq> Num (id_task t)"
  proof -
    from that have "filter (\<lambda>t. i \<noteq> Num (id_task t)) (tasks m) = tasks m"
      by (simp add: filter_id_conv)
    then show ?thesis by (simp add: m'_def)
  qed
  show ?thesis
  proof (rule exI [of _ m'], rule exI [of _ b1], intro conjI)
    show "deleteTask J i (m, b) = Inr (m', b1)" by (rule d)
    show "\<forall>t\<in>set (tasks m'). i \<noteq> Num (id_task t)" by (simp add: ts)
    show "subseq (tasks m') (tasks m)" by (simp add: ts)
    show "\<forall>t. i \<noteq> Num (id_task t) \<longrightarrow> count_list (tasks m') t = count_list (tasks m) t"
      by (simp add: ts count_list_filter_if)
    show "currentFilter m' = currentFilter m" by (simp add: m'_def)
    show "(\<forall>t\<in>set (tasks m). i \<noteq> Num (id_task t)) \<longrightarrow> m' = m" using same by blast
    show "save_tasks J (m', b) = Inr b1" by (rule sv)
    show "\<not> denied b \<and>
          used (AList.update StorageKeys_TASKS
                  (stringify J (JArray (map task_object (tasks m')))) (items b)) \<le> quota b \<longrightarrow>
          map_of (items b1) StorageKeys_TASKS =
            Some (stringify J (JArray (map task_object (tasks m'))))"
      using sv Storage_set_stored [of J b StorageKeys_TASKS "JArray (map task_object (tasks m'))" b1]
      by (simp add: save_tasks_def)
  qed
qed

theorem deleteTask_removes_matching_witness:
  "deleteTask example_JSON (Num 7)
     (\<lparr> tasks = [sample_task 7 ''a'', sample_task 8 ''b'', sample_task 7 ''c''],
        currentFilter = ''todas'' \<rparr>, empty_browser) =
     Inr (\<lparr> tasks = [sample_task 8 ''b''], currentFilter = ''todas'' \<rparr>,
          empty_browser\<lparr>items := [(''eduflow_tasks'', ''null'')]\<rparr>)
   \<and> Num 7 \<noteq> Num (id_task (sample_task 8 ''b''))
   \<and> count_list [sample_task 8 ''b''] (sample_task 8 ''b'') =
       count_list [sample_task 7 ''a'', sample_task 8 ''b'', sample_task 7 ''c'']
         (sample_task 8 ''b'')
   \<and> Num 9 \<noteq> Num (id_task (sample_task 7 ''a''))
   \<and> Num 9 \<noteq> Num (id_task (sample_task 8 ''b''))
   \<and> deleteTask example_JSON (Num 9)
        (\<lparr> tasks = [sample_task 7 ''a'', sample_task 8 ''b''], currentFilter = ''todas'' \<rparr>,
         empty_browser) =
       Inr (\<lparr> tasks = [sample_task 7 ''a'', sample_task 8 ''b''], currentFilter = ''todas'' \<rparr>,
            empty_browser\<lparr>items := [(''eduflow_tasks'', ''null'')]\<rparr>)"
proof -
  let ?M = "\<lparr> tasks = [sample_task 7 ''a'', sample_task 8 ''b'', sample_task 7 ''c''],
              currentFilter = ''todas'' \<rparr>"
  let ?N = "\<lparr> tasks = [sample_task 7 ''a'', sample_task 8 ''b''], currentFilter = ''todas'' \<rparr>"
  have sv: "save_tasks example_JSON (m, empty_browser) =
      Inr (empty_browser\<lparr>items := [(''eduflow_tasks'', ''null'')]\<rparr>)" for m
    by (simp add: save_tasks_def Storage_set_def try_catch_def setItem_def empty_browser_def
        example_JSON_def used_def StorageKeys_TASKS_def)
  have ev: "deleteTask example_JSON (Num 7) (?M, empty_browser) =
     Inr (\<lparr> tasks = [sample_task 8 ''b''], currentFilter = ''todas'' \<rparr>,
          empty_browser\<lparr>items := [(''eduflow_tasks'', ''null'')]\<rparr>)"
    by (simp add: deleteTask_def sv sample_task_def)
  have 1: "Num 7 \<noteq> Num (id_task (sample_task 8 ''b''))"
    and 2: "Num 9 \<noteq> Num (id_task (sample_task 7 ''a''))"
    and 3: "Num 9 \<noteq> Num (id_task (sample_task 8 ''b''))"
    by (simp_all add: sample_task_def)
  from deleteTask_removes_matching [of example_JSON "Num 7" ?M empty_browser]
  obtain m' b1 where d: "deleteTask example_JSON (Num 7) (?M, empty_browser) = Inr (m', b1)"
    and cnt: "\<forall>t. Num 7 \<noteq> Num (id_task t) \<longrightarrow> count_list (tasks m') t = count_list (tasks ?M) t"
    by blast
  from d ev have "tasks m' = [sample_task 8 ''b'']" by auto
  with cnt 1
  have 4: "count_list [sample_task 8 ''b''] (sample_task 8 ''b'') =
       count_list [sample_task 7 ''a'', sample_task 8 ''b'', sample_task 7 ''c'']
         (sample_task 8 ''b'')"
    by (simp del: count_list.simps)
  from 2 3 have "\<forall>t\<in>set (tasks ?N). Num 9 \<noteq> Num (id_task t)" by simp
  with deleteTask_removes_matching [of example_JSON "Num 9" ?N empty_browser]
  have 5: "deleteTask example_JSON (Num 9) (?N, empty_browser) =
       Inr (?N, empty_browser\<lparr>items := [(''eduflow_tasks'', ''null'')]\<rparr>)"
    by (auto simp: sv)
  from ev 1 2 3 4 5 show ?thesis by blast
qed

subsection \<open>Ids of tasks\<close>

text \<open>
  The ids after a run of \<^verbatim>\<open>addTask\<close> calls are the ids before it followed by the readings
  of \<^verbatim>\<open>Date.now()\<close>: they are pairwise distinct exactly when those are.
\<close>

lemma addTask_ids:
  "addTask J now isoString taskData (m, b) = Inr (t, m', b') \<Longrightarrow>
   map id_task (tasks m') = map id_task (tasks m) @ [now]"
  by (auto simp: addTask_def Let_def split: if_splits sum.splits option.splits)

lemma addTasks_ids:
  "addTasks J calls (m, b) = Inr (m', b') \<Longrightarrow>
   map id_task (tasks m') = map id_task (tasks m) @ map fst calls"
proof (induction calls arbitrary: m b)
  case Nil
  then show ?case by simp
next
  case (Cons c calls)
  obtain now isoString taskData where c: "c = (now, isoString, taskData)"
    by (cases c)
  from Cons.prems obtain t m1 b1 where
    a: "addTask J now isoString taskData (m, b) = Inr (t, m1, b1)" and
    r: "addTasks J calls (m1, b1) = Inr (m', b')"
    by (auto simp: c split: sum.splits)
  from Cons.IH [OF r] addTask_ids [OF a] show ?case by (simp add: c)
qed

lemma addTasks_distinct_ids:
  "addTasks J calls (m, b) = Inr (m', b') \<Longrightarrow>
   distinct (map id_task (tasks m')) \<longleftrightarrow> distinct (map id_task (tasks m) @ map fst calls)"
  by (simp only: addTasks_ids)

text \<open>
  Claim C7 says that the ids of the tasks are pairwise distinct after every sequence of
  successful additions. Two calls of \<^verbatim>\<open>addTask\<close> within the same millisecond read the same
  \<^verbatim>\<open>Date.now()\<close>; both succeed and both tasks get that id.
\<close>

theorem addTask_same_millisecond_same_id:
  "map_sum id (map id_task \<circ> tasks \<circ> fst)
     (addTasks example_JSON
        [(1761213600000, ''2025-10-23T10:00:00.000Z'',
          [(''title'', ''a''), (''date'', ''2025-10-23'')]),
         (1761213600000, ''2025-10-23T10:00:00.000Z'',
          [(''title'', ''b''), (''date'', ''2025-10-23'')])]
        (no_tasks, empty_browser)) = Inr [1761213600000, 1761213600000]
   \<and> \<not> distinct [1761213600000, 1761213600000 :: int]"
proof -
  obtain m' b' where r: "addTasks example_JSON
        [(1761213600000, ''2025-10-23T10:00:00.000Z'',
          [(''title'', ''a''), (''date'', ''2025-10-23'')]),
         (1761213600000, ''2025-10-23T10:00:00.000Z'',
          [(''title'', ''b''), (''date'', ''2025-10-23'')])]
        (no_tasks, empty_browser) = Inr (m', b')"
    by (simp add: addTask_def save_tasks_def Storage_set_def try_catch_def
        setItem_def empty_browser_def example_JSON_def used_def StorageKeys_TASKS_def Let_def)
  show ?thesis
    unfolding r using addTasks_ids [OF r] by (simp add: no_tasks_def)
qed

section \<open>Properties of the study cursor\<close>

text \<open>
  With the cursor inside a collection that is not empty, \<^verbatim>\<open>nextCard\<close> and \<^verbatim>\<open>previousCard\<close>
  move it by one and wrap around.
\<close>

lemma num_rem_nonneg:
  assumes "0 \<le> x" and "0 < n"
  shows "num_rem (Num x) (Num n) = Num (x mod n)"
proof (cases "x = 0")
  case True
  with assms show ?thesis by simp
next
  case False
  with assms show ?thesis by (simp add: sgn_if)
qed

lemma cursor_wraps:
  assumes "currentCardIndex f = Num i" and "0 \<le> i" and "i < int (length (flashcards f))"
  shows "currentCardIndex (nextCard f) = Num ((i + 1) mod int (length (flashcards f)))"
    and "currentCardIndex (previousCard f) = Num ((i - 1) mod int (length (flashcards f)))"
proof -
  let ?n = "int (length (flashcards f))"
  have n: "0 < ?n" using assms by linarith
  have "num_rem (Num (i + 1)) (Num ?n) = Num ((i + 1) mod ?n)"
    using assms n by (intro num_rem_nonneg) linarith+
  then show "currentCardIndex (nextCard f) = Num ((i + 1) mod ?n)"
    using assms by (simp add: nextCard_def del: num_rem.simps)
  have "num_rem (Num (i - 1 + ?n)) (Num ?n) = Num ((i - 1 + ?n) mod ?n)"
    using assms n by (intro num_rem_nonneg) linarith+
  also have "(i - 1 + ?n) mod ?n = (i - 1) mod ?n" by simp
  finally show "currentCardIndex (previousCard f) = Num ((i - 1) mod ?n)"
    using assms by (simp add: previousCard_def del: num_rem.simps)
qed

lemma previousCard_three:
  "currentCardIndex (previousCard \<lparr> flashcards = [a, b, c], currentCardIndex = Num 0 \<rparr>) = Num 2"
  by (simp add: previousCard_def)

text \<open>
  Claim C5 says that \<^verbatim>\<open>nextCard\<close> and \<^verbatim>\<open>previousCard\<close> leave the cursor unchanged when the
  collection is empty. Neither checks the length (\<^verbatim>\<open>markReviewed\<close> does, before it calls
  \<^verbatim>\<open>nextCard\<close>): on the empty collection the remainder by 0 makes the cursor \<^verbatim>\<open>NaN\<close>.
\<close>

theorem cursor_on_empty_collection:
  "currentCardIndex (nextCard \<lparr> flashcards = [], currentCardIndex = Num 0 \<rparr>) = NaN
   \<and> currentCardIndex (previousCard \<lparr> flashcards = [], currentCardIndex = Num 0 \<rparr>) = NaN"
  by (simp add: nextCard_def previousCard_def)

end
